theory Spec2Isabelle
  imports Main "HOL-Library.Sublist"
begin

section \<open>The provisioning script and its environment\<close>

text \<open>
  The script \<^verbatim>\<open>proj.py\<close> is a straight line of effects: it prints progress lines,
  runs \<^verbatim>\<open>kubectl\<close> as a subprocess, writes one YAML file and removes it again. The
  model threads the list of effects performed so far (the trace, oldest first) through
  every operation; an operation returns the extended trace together with either the
  exception that left it or its return value.

  What the script does not decide is a parameter of the model: the external tool is a
  function from the trace at the moment of the call and the command line to the completed
  process (exit code, captured standard output and standard error), so that its answer may
  depend on everything the script has done before. The library calls are taken to do
  their work: \<^verbatim>\<open>subprocess.run\<close> finds the tool and comes back with a completed process,
  opening the descriptor file for writing and removing it succeed, and \<^verbatim>\<open>yaml.dump\<close>
  is not unfolded, the file holds the dumped value. So the only exception of the model is
  the \<^verbatim>\<open>SystemExit\<close> that the script raises itself, or the argument parser for it.
\<close>

subsection \<open>Values written to the descriptor file\<close>

text \<open>A Python dictionary literal keeps the order of its keys: an association list.\<close>

datatype yaml = Str string | Dict "(string \<times> yaml) list"

fun lookup :: "yaml \<Rightarrow> string \<Rightarrow> yaml option" where
  "lookup (Dict kvs) key = map_of kvs key"
| "lookup (Str s) key = None"


text \<open>
  Nested subscripting, as in \<^verbatim>\<open>secret_yaml['metadata']['annotations']\<close>: \<^term>\<open>None\<close> when a
  key is missing on the way.
\<close>

fun lookup_path :: "yaml \<Rightarrow> string list \<Rightarrow> yaml option" where
  "lookup_path y [] = Some y"
| "lookup_path y (key # ks) = (case lookup y key of None \<Rightarrow> None | Some v \<Rightarrow> lookup_path v ks)"

subsection \<open>Effects, exceptions and the external tool\<close>

text \<open>
  What \<^verbatim>\<open>subprocess.run\<close> hands back with \<^verbatim>\<open>capture_output=True, text=True\<close>.
\<close>

record completed_process =
  returncode :: int
  stdout :: string
  stderr :: string

text \<open>
  One observable effect of the script. \<^term>\<open>Exec cmd result\<close> is a subprocess started
  with the argument vector \<open>cmd\<close>, together with what it came back with.
\<close>

datatype event =
    Print string
  | Exec "string list" completed_process
  | WriteFile string yaml
  | RemoveFile string

type_synonym trace = "event list"

type_synonym kubectl = "trace \<Rightarrow> string list \<Rightarrow> completed_process"

datatype exc = SystemExit int

type_synonym 'a prog = "trace \<Rightarrow> trace \<times> (exc + 'a)"

text \<open>Sequencing of two statements: an exception of the first skips the second.\<close>

definition seq :: "'a prog \<Rightarrow> ('a \<Rightarrow> 'b prog) \<Rightarrow> 'b prog" where
  "seq m f tr =
     (case m tr of
        (tr', Inl e) \<Rightarrow> (tr', Inl e)
      | (tr', Inr v) \<Rightarrow> f v tr')"

text \<open>
  \<^verbatim>\<open>try: body  except SystemExit: handler\<close>. \<^verbatim>\<open>SystemExit\<close> is the only exception
  of the model, so the handler catches every exception of the body, whatever its exit
  code; an exception of the handler itself propagates.
\<close>

definition try_except_SystemExit :: "'a prog \<Rightarrow> 'a prog \<Rightarrow> 'a prog" where
  "try_except_SystemExit body handler tr =
     (case body tr of
        (tr', Inl (SystemExit code)) \<Rightarrow> handler tr'
      | (tr', Inr v) \<Rightarrow> (tr', Inr v))"

definition print :: "string \<Rightarrow> unit prog" where
  "print s tr = (tr @ [Print s], Inr ())"

definition yaml_dump_to :: "string \<Rightarrow> yaml \<Rightarrow> unit prog" where
  "yaml_dump_to path y tr = (tr @ [WriteFile path y], Inr ())"

definition os_remove :: "string \<Rightarrow> unit prog" where
  "os_remove path tr = (tr @ [RemoveFile path], Inr ())"

subsection \<open>String helpers of the Python library\<close>

text \<open>
  \<^verbatim>\<open>str.strip()\<close> removes leading and trailing whitespace. A \<^typ>\<open>char\<close> is read as a
  code point below 256; Python's \<^verbatim>\<open>str.isspace\<close> holds there for 9 to 13, 28 to 32,
  133 and 160.
\<close>

definition isspace :: "char \<Rightarrow> bool" where
  "isspace c =
     (let n = (of_char c :: nat)
      in (9 \<le> n \<and> n \<le> 13) \<or> (28 \<le> n \<and> n \<le> 32) \<or> n = 133 \<or> n = 160)"

definition strip :: "string \<Rightarrow> string" where
  "strip s = rev (dropWhile isspace (rev (dropWhile isspace s)))"

fun join :: "string \<Rightarrow> string list \<Rightarrow> string" where
  "join sep [] = []"
| "join sep [x] = x"
| "join sep (x # y # ys) = x @ sep @ join sep (y # ys)"

subsection \<open>run\_command\<close>

text \<open>
  \<^verbatim>\<open>subprocess.run(cmd, check=True, capture_output=True, text=True)\<close> raises
  \<^verbatim>\<open>CalledProcessError\<close> exactly when the exit code is not zero. The handler prints the
  command line and the stripped standard error and calls \<^verbatim>\<open>sys.exit(1)\<close>.
\<close>

definition run_command :: "kubectl \<Rightarrow> string list \<Rightarrow> string prog" where
  "run_command k cmd tr =
     (let result = k tr cmd; tr' = tr @ [Exec cmd result]
      in if returncode result = 0 then (tr', Inr (strip (stdout result)))
         else (tr' @ [Print (''Error running command: '' @ join '' '' cmd),
                      Print (strip (stderr result))],
               Inl (SystemExit 1)))"

subsection \<open>create\_service\_account\<close>

definition dry_run_flag :: "bool \<Rightarrow> string list" where
  "dry_run_flag dry_run = (if dry_run then [''--dry-run=client''] else [])"

definition ensure_namespace_cmd :: "string \<Rightarrow> string list" where
  "ensure_namespace_cmd namespace = [''kubectl'', ''get'', ''namespace'', namespace]"

definition create_ns_cmd :: "string \<Rightarrow> bool \<Rightarrow> string list" where
  "create_ns_cmd namespace dry_run =
     [''kubectl'', ''create'', ''namespace'', namespace] @ dry_run_flag dry_run"

definition create_sa_cmd :: "string \<Rightarrow> string \<Rightarrow> bool \<Rightarrow> string list" where
  "create_sa_cmd username namespace dry_run =
     [''kubectl'', ''create'', ''serviceaccount'', username, ''--namespace'', namespace]
       @ dry_run_flag dry_run"

definition bind_role_cmd :: "string \<Rightarrow> string \<Rightarrow> string \<Rightarrow> bool \<Rightarrow> string list" where
  "bind_role_cmd username role namespace dry_run =
     [''kubectl'', ''create'', ''rolebinding'', username @ ''-'' @ role @ ''-binding'',
      ''--clusterrole'', role, ''--serviceaccount='' @ namespace @ '':'' @ username,
      ''--namespace'', namespace] @ dry_run_flag dry_run"

definition secret_name :: "string \<Rightarrow> string" where
  "secret_name username = username @ ''-token''"

definition secret_yaml :: "string \<Rightarrow> string \<Rightarrow> yaml" where
  "secret_yaml username namespace =
     Dict [(''apiVersion'', Str ''v1''),
           (''kind'', Str ''Secret''),
           (''metadata'',
              Dict [(''name'', Str (secret_name username)),
                    (''namespace'', Str namespace),
                    (''annotations'',
                       Dict [(''kubernetes.io/service-account.name'', Str username)])]),
           (''type'', Str ''kubernetes.io/service-account-token'')]"

definition secret_file :: "string \<Rightarrow> string" where
  "secret_file username = secret_name username @ ''.yaml''"

definition create_secret_cmd :: "string \<Rightarrow> bool \<Rightarrow> string list" where
  "create_secret_cmd username dry_run =
     [''kubectl'', ''apply'', ''-f'', secret_file username] @ dry_run_flag dry_run"

text \<open>Step 1: the namespace query inside \<^verbatim>\<open>try\<close>, the creation inside \<^verbatim>\<open>except\<close>.\<close>

definition step1 :: "kubectl \<Rightarrow> string \<Rightarrow> bool \<Rightarrow> unit prog" where
  "step1 k namespace dry_run =
     seq (print (''Ensuring namespace '' @ [CHR 0x27] @ namespace @ [CHR 0x27] @ '' exists...''))
       (\<lambda>_. try_except_SystemExit
          (seq (run_command k (ensure_namespace_cmd namespace))
             (\<lambda>_. print (''Namespace '' @ [CHR 0x27] @ namespace @ [CHR 0x27] @ '' already exists.'')))
          (seq (run_command k (create_ns_cmd namespace dry_run))
             (\<lambda>_. print (''Namespace '' @ [CHR 0x27] @ namespace @ [CHR 0x27]
                            @ '' created successfully.''))))"

definition step2 :: "kubectl \<Rightarrow> string \<Rightarrow> string \<Rightarrow> bool \<Rightarrow> unit prog" where
  "step2 k username namespace dry_run =
     seq (print (''Creating service account '' @ [CHR 0x27] @ username @ [CHR 0x27]
                   @ '' in namespace '' @ [CHR 0x27] @ namespace @ [CHR 0x27] @ ''...''))
       (\<lambda>_. seq (run_command k (create_sa_cmd username namespace dry_run))
          (\<lambda>_. print (''Service account '' @ [CHR 0x27] @ username @ [CHR 0x27]
                         @ '' created successfully.'')))"

definition step3 :: "kubectl \<Rightarrow> string \<Rightarrow> string \<Rightarrow> string \<Rightarrow> bool \<Rightarrow> unit prog" where
  "step3 k username role namespace dry_run =
     seq (print (''Binding service account '' @ [CHR 0x27] @ username @ [CHR 0x27]
                   @ '' to role '' @ [CHR 0x27] @ role @ [CHR 0x27] @ ''...''))
       (\<lambda>_. seq (run_command k (bind_role_cmd username role namespace dry_run))
          (\<lambda>_. print (''Service account '' @ [CHR 0x27] @ username @ [CHR 0x27]
                         @ '' bound to role '' @ [CHR 0x27] @ role @ [CHR 0x27]
                         @ '' successfully.'')))"

definition step4 :: "kubectl \<Rightarrow> string \<Rightarrow> string \<Rightarrow> bool \<Rightarrow> unit prog" where
  "step4 k username namespace dry_run =
     seq (print (''Creating a secret for the service account '' @ [CHR 0x27] @ username
                   @ [CHR 0x27] @ ''...''))
       (\<lambda>_. seq (yaml_dump_to (secret_file username) (secret_yaml username namespace))
       (\<lambda>_. seq (print (''Generated secret YAML file: '' @ secret_file username))
       (\<lambda>_. seq (run_command k (create_secret_cmd username dry_run))
       (\<lambda>_. seq (print (''Secret '' @ [CHR 0x27] @ secret_name username @ [CHR 0x27]
                          @ '' created in namespace '' @ [CHR 0x27] @ namespace @ [CHR 0x27]
                          @ '' successfully.''))
       (\<lambda>_. if \<not> dry_run then os_remove (secret_file username)
             else (\<lambda>tr. (tr, Inr ())))))))"

definition create_service_account ::
  "kubectl \<Rightarrow> string \<Rightarrow> string \<Rightarrow> string \<Rightarrow> bool \<Rightarrow> unit prog" where
  "create_service_account k username role namespace dry_run =
     seq (step1 k namespace dry_run)
       (\<lambda>_. seq (step2 k username namespace dry_run)
       (\<lambda>_. seq (step3 k username role namespace dry_run)
       (\<lambda>_. step4 k username namespace dry_run)))"

subsection \<open>The command line\<close>

text \<open>
  The argument parser is declared, not written, in the source: \<^verbatim>\<open>--username\<close> and
  \<^verbatim>\<open>--role\<close> are required, \<^verbatim>\<open>--role\<close> has four choices, \<^verbatim>\<open>--namespace\<close> defaults
  to \<^verbatim>\<open>staging\<close> and \<^verbatim>\<open>--dry-run\<close> is a flag. The model starts from the options as
  given on the command line (\<^term>\<open>None\<close> for an option that is absent) and keeps these
  declarations; \<^verbatim>\<open>parse_args\<close> leaves through \<^verbatim>\<open>SystemExit(2)\<close> on a value outside the
  choices and on a missing required option. Its usage message is not part of the trace.
\<close>

record argv =
  opt_username :: "string option"
  opt_role :: "string option"
  opt_namespace :: "string option"
  opt_dry_run :: bool

record args =
  args_username :: string
  args_role :: string
  args_namespace :: string
  args_dry_run :: bool

definition role_choices :: "string list" where
  "role_choices = [''product-team-role'', ''lead-developer-team-role'', ''cs-team-role'', ''operator'']"

definition parse_args :: "argv \<Rightarrow> exc + args" where
  "parse_args a =
     (case opt_role a of
        None \<Rightarrow> Inl (SystemExit 2)
      | Some r \<Rightarrow>
          if r \<notin> set role_choices then Inl (SystemExit 2)
          else (case opt_username a of
                  None \<Rightarrow> Inl (SystemExit 2)
                | Some u \<Rightarrow>
                    Inr \<lparr>args_username = u, args_role = r,
                         args_namespace = (case opt_namespace a of None \<Rightarrow> ''staging'' | Some n \<Rightarrow> n),
                         args_dry_run = opt_dry_run a\<rparr>))"

definition main :: "kubectl \<Rightarrow> argv \<Rightarrow> trace \<times> (exc + unit)" where
  "main k a =
     (case parse_args a of
        Inl e \<Rightarrow> ([], Inl e)
      | Inr parsed \<Rightarrow>
          create_service_account k (args_username parsed) (args_role parsed)
            (args_namespace parsed) (args_dry_run parsed) [])"

subsection \<open>Reading a trace\<close>

text \<open>The command lines of the subprocesses started, in the order they were started.\<close>

fun commands_of :: "trace \<Rightarrow> string list list" where
  "commands_of [] = []"
| "commands_of (Exec cmd result # tr) = cmd # commands_of tr"
| "commands_of (e # tr) = commands_of tr"

text \<open>
  The files of the working directory after the effects of a trace, from the files \<open>fs\<close>
  that were there before: a write creates or replaces a file, a removal deletes it. Only
  the script changes them; a subprocess leaves the directory as it is.
\<close>

fun files_after :: "(string \<rightharpoonup> yaml) \<Rightarrow> trace \<Rightarrow> (string \<rightharpoonup> yaml)" where
  "files_after fs [] = fs"
| "files_after fs (WriteFile path y # tr) = files_after (fs(path \<mapsto> y)) tr"
| "files_after fs (RemoveFile path # tr) = files_after (fs(path := None)) tr"
| "files_after fs (e # tr) = files_after fs tr"

subsection \<open>Runs of the script\<close>

definition run_trace :: "kubectl \<Rightarrow> string \<Rightarrow> string \<Rightarrow> string \<Rightarrow> bool \<Rightarrow> trace" where
  "run_trace k username role namespace dry_run =
     fst (create_service_account k username role namespace dry_run [])"

definition run_result :: "kubectl \<Rightarrow> string \<Rightarrow> string \<Rightarrow> string \<Rightarrow> bool \<Rightarrow> exc + unit" where
  "run_result k username role namespace dry_run =
     snd (create_service_account k username role namespace dry_run [])"

text \<open>The two lines \<^verbatim>\<open>run_command\<close> prints before it exits.\<close>

definition error_report :: "string list \<Rightarrow> completed_process \<Rightarrow> trace" where
  "error_report cmd result =
     [Print (''Error running command: '' @ join '' '' cmd), Print (strip (stderr result))]"

text \<open>
  The traces of a step 1 that went through: the namespace was found, or the query failed
  and the creation succeeded. The progress messages are left open.
\<close>

inductive ensured :: "string \<Rightarrow> bool \<Rightarrow> trace \<Rightarrow> bool" for ns d where
  found:
    "returncode q = 0 \<Longrightarrow>
     ensured ns d [Print m, Exec (ensure_namespace_cmd ns) q, Print m']"
| created:
    "returncode q \<noteq> 0 \<Longrightarrow> returncode c = 0 \<Longrightarrow>
     ensured ns d
       ([Print m, Exec (ensure_namespace_cmd ns) q] @ error_report (ensure_namespace_cmd ns) q
          @ [Exec (create_ns_cmd ns d) c, Print m'])"

text \<open>
  The runs of \<^verbatim>\<open>create_service_account\<close> from the empty trace, by the first call that
  ended them: one rule for each call that can fail, one for the run that completes.
\<close>

inductive outcome :: "string \<Rightarrow> string \<Rightarrow> string \<Rightarrow> bool \<Rightarrow> trace \<Rightarrow> exc + unit \<Rightarrow> bool"
  for u r ns d where
  ns_failed:
    "returncode q \<noteq> 0 \<Longrightarrow> returncode c \<noteq> 0 \<Longrightarrow>
     outcome u r ns d
       ([Print m, Exec (ensure_namespace_cmd ns) q] @ error_report (ensure_namespace_cmd ns) q
          @ [Exec (create_ns_cmd ns d) c] @ error_report (create_ns_cmd ns d) c)
       (Inl (SystemExit 1))"
| sa_failed:
    "ensured ns d t1 \<Longrightarrow> returncode s \<noteq> 0 \<Longrightarrow>
     outcome u r ns d
       (t1 @ [Print m2, Exec (create_sa_cmd u ns d) s] @ error_report (create_sa_cmd u ns d) s)
       (Inl (SystemExit 1))"
| rb_failed:
    "ensured ns d t1 \<Longrightarrow> returncode s = 0 \<Longrightarrow> returncode b \<noteq> 0 \<Longrightarrow>
     outcome u r ns d
       (t1 @ [Print m2, Exec (create_sa_cmd u ns d) s, Print m2',
              Print m3, Exec (bind_role_cmd u r ns d) b] @ error_report (bind_role_cmd u r ns d) b)
       (Inl (SystemExit 1))"
| apply_failed:
    "ensured ns d t1 \<Longrightarrow> returncode s = 0 \<Longrightarrow> returncode b = 0 \<Longrightarrow> returncode a \<noteq> 0 \<Longrightarrow>
     outcome u r ns d
       (t1 @ [Print m2, Exec (create_sa_cmd u ns d) s, Print m2',
              Print m3, Exec (bind_role_cmd u r ns d) b, Print m3',
              Print m4, WriteFile (secret_file u) (secret_yaml u ns), Print m4',
              Exec (create_secret_cmd u d) a] @ error_report (create_secret_cmd u d) a)
       (Inl (SystemExit 1))"
| completed:
    "ensured ns d t1 \<Longrightarrow> returncode s = 0 \<Longrightarrow> returncode b = 0 \<Longrightarrow> returncode a = 0 \<Longrightarrow>
     outcome u r ns d
       (t1 @ [Print m2, Exec (create_sa_cmd u ns d) s, Print m2',
              Print m3, Exec (bind_role_cmd u r ns d) b, Print m3',
              Print m4, WriteFile (secret_file u) (secret_yaml u ns), Print m4',
              Exec (create_secret_cmd u d) a, Print m4'']
          @ (if d then [] else [RemoveFile (secret_file u)]))
       (Inr ())"

subsection \<open>The four operations as command lines\<close>


subsection \<open>Some clusters and command lines\<close>

text \<open>
  External tools to run the script against: one that succeeds at every call, one where
  the service account exists already, one where the namespace is missing, and one whose
  namespace query runs into a transport error while every later call succeeds.
\<close>

definition succeeded :: completed_process where
  "succeeded = \<lparr>returncode = 0, stdout = [], stderr = []\<rparr>"

definition failed_with :: "string \<Rightarrow> completed_process" where
  "failed_with msg = \<lparr>returncode = 1, stdout = [], stderr = msg\<rparr>"

definition k_ok :: kubectl where
  "k_ok tr cmd = succeeded"

definition k_sa_exists :: kubectl where
  "k_sa_exists tr cmd =
     (if take 3 cmd = [''kubectl'', ''create'', ''serviceaccount'']
      then failed_with ''Error from server (AlreadyExists): serviceaccounts alice already exists\<newline>''
      else succeeded)"

definition k_no_namespace :: kubectl where
  "k_no_namespace tr cmd =
     (if take 2 cmd = [''kubectl'', ''get'']
      then failed_with ''Error from server (NotFound): namespaces staging not found\<newline>''
      else succeeded)"



definition argv_admin :: argv where
  "argv_admin = \<lparr>opt_username = Some ''alice'', opt_role = Some ''cluster-admin'',
                  opt_namespace = None, opt_dry_run = False\<rparr>"

section \<open>The shape of a run\<close>

lemma run_command_cases:
  assumes "run_command k cmd tr0 = (tr, res)"
  obtains (ok) result where "tr = tr0 @ [Exec cmd result]" "returncode result = 0"
      "res = Inr (strip (stdout result))"
    | (failed) result where "tr = tr0 @ [Exec cmd result] @ error_report cmd result"
      "returncode result \<noteq> 0" "res = Inl (SystemExit 1)"
  using assms unfolding run_command_def Let_def error_report_def by (auto split: if_splits)

lemma announced_cases:
  assumes "seq (print a) (\<lambda>_. seq (run_command k cmd) (\<lambda>_. print b)) tr0 = (tr, res)"
  obtains (ok) result where "tr = tr0 @ [Print a, Exec cmd result, Print b]"
      "returncode result = 0" "res = Inr ()"
    | (failed) result where "tr = tr0 @ [Print a, Exec cmd result] @ error_report cmd result"
      "returncode result \<noteq> 0" "res = Inl (SystemExit 1)"
  using assms unfolding seq_def print_def
  by (auto split: prod.splits sum.splits elim!: run_command_cases)

lemma query_then_create_cases:
  assumes "seq (print a) (\<lambda>_. try_except_SystemExit
             (seq (run_command k qc) (\<lambda>_. print b))
             (seq (run_command k cc) (\<lambda>_. print b'))) tr0 = (tr, res)"
  obtains (found) q where "tr = tr0 @ [Print a, Exec qc q, Print b]"
      "returncode q = 0" "res = Inr ()"
    | (created) q c where
      "tr = tr0 @ [Print a, Exec qc q] @ error_report qc q @ [Exec cc c, Print b']"
      "returncode q \<noteq> 0" "returncode c = 0" "res = Inr ()"
    | (failed) q c where
      "tr = tr0 @ [Print a, Exec qc q] @ error_report qc q @ [Exec cc c] @ error_report cc c"
      "returncode q \<noteq> 0" "returncode c \<noteq> 0" "res = Inl (SystemExit 1)"
  using assms unfolding seq_def try_except_SystemExit_def print_def
  by (auto split: prod.splits sum.splits exc.splits elim!: run_command_cases)

lemma step1_cases:
  assumes "step1 k ns d [] = (tr, res)"
  obtains (through) "ensured ns d tr" "res = Inr ()"
    | (failed) m q c where
        "tr = [Print m, Exec (ensure_namespace_cmd ns) q] @ error_report (ensure_namespace_cmd ns) q
          @ [Exec (create_ns_cmd ns d) c] @ error_report (create_ns_cmd ns d) c"
        "returncode q \<noteq> 0" "returncode c \<noteq> 0" "res = Inl (SystemExit 1)"
  using assms [unfolded step1_def]
proof (cases rule: query_then_create_cases)
  case (found q)
  then show ?thesis using that(1) ensured.found [of q ns] by simp
next
  case (created q c)
  then show ?thesis using that(1) ensured.created [of q c ns] by simp
next
  case (failed q c)
  then show ?thesis using that(2) by simp
qed

lemma write_then_apply_cases:
  assumes "seq (print a) (\<lambda>_. seq (yaml_dump_to f y) (\<lambda>_. seq (print b)
             (\<lambda>_. seq (run_command k cmd) (\<lambda>_. seq (print c)
             (\<lambda>_. if \<not> d then os_remove f else (\<lambda>tr. (tr, Inr ()))))))) tr0 = (tr, res)"
  obtains (ok) result where
      "tr = tr0 @ [Print a, WriteFile f y, Print b, Exec cmd result, Print c]
              @ (if d then [] else [RemoveFile f])"
      "returncode result = 0" "res = Inr ()"
    | (failed) result where
      "tr = tr0 @ [Print a, WriteFile f y, Print b, Exec cmd result] @ error_report cmd result"
      "returncode result \<noteq> 0" "res = Inl (SystemExit 1)"
  using assms unfolding seq_def print_def yaml_dump_to_def os_remove_def
  by (auto split: prod.splits sum.splits if_splits elim!: run_command_cases)

lemma run_outcome:
  assumes "create_service_account k u r ns d [] = (tr, res)"
  shows "outcome u r ns d tr res"
proof -
  obtain t1 res1 where s1: "step1 k ns d [] = (t1, res1)" by fastforce
  from s1 show ?thesis
  proof (cases rule: step1_cases)
    case failed
    with assms s1 show ?thesis
      unfolding create_service_account_def seq_def
      by (auto intro: outcome.ns_failed [simplified])
  next
    case through
    obtain t2 res2 where s2: "step2 k u ns d t1 = (t2, res2)" by fastforce
    from s2 [unfolded step2_def] show ?thesis
    proof (cases rule: announced_cases)
      case (failed s)
      with assms s1 s2 through show ?thesis
        unfolding create_service_account_def seq_def
        by (auto intro: outcome.sa_failed [simplified])
    next
      case sa: (ok s)
      obtain t3 res3 where s3: "step3 k u r ns d t2 = (t3, res3)" by fastforce
      from s3 [unfolded step3_def] show ?thesis
      proof (cases rule: announced_cases)
        case (failed b)
        with assms s1 s2 s3 through sa show ?thesis
          unfolding create_service_account_def seq_def
          by (auto intro: outcome.rb_failed [simplified])
      next
        case rb: (ok b)
        obtain t4 res4 where s4: "step4 k u ns d t3 = (t4, res4)" by fastforce
        from s4 [unfolded step4_def] show ?thesis
        proof (cases rule: write_then_apply_cases)
          case (failed a)
          with assms s1 s2 s3 s4 through sa rb show ?thesis
            unfolding create_service_account_def seq_def
            by (auto intro: outcome.apply_failed [simplified])
        next
          case (ok a)
          with assms s1 s2 s3 s4 through sa rb show ?thesis
            unfolding create_service_account_def seq_def
            using outcome.completed [of ns d t1 s b a u r, simplified]
            by (auto split: if_splits)
        qed
      qed
    qed
  qed
qed

lemma run_shape: "outcome u r ns d (run_trace k u r ns d) (run_result k u r ns d)"
  unfolding run_trace_def run_result_def by (rule run_outcome) simp

subsection \<open>Facts about the command lines and the trace readers\<close>

lemma commands_distinct:
  "create_ns_cmd ns d \<noteq> ensure_namespace_cmd ns'"
  "create_sa_cmd u ns d \<noteq> ensure_namespace_cmd ns'"
  "bind_role_cmd u r ns d \<noteq> ensure_namespace_cmd ns'"
  "create_secret_cmd u d \<noteq> ensure_namespace_cmd ns'"
  "create_sa_cmd u ns d \<noteq> create_ns_cmd ns' d'"
  "bind_role_cmd u r ns d \<noteq> create_ns_cmd ns' d'"
  "create_secret_cmd u d \<noteq> create_ns_cmd ns' d'"
  "bind_role_cmd u r ns d \<noteq> create_sa_cmd u' ns' d'"
  "create_secret_cmd u d \<noteq> create_sa_cmd u' ns' d'"
  "create_secret_cmd u d \<noteq> bind_role_cmd u' r' ns' d'"
  unfolding create_ns_cmd_def ensure_namespace_cmd_def create_sa_cmd_def bind_role_cmd_def
    create_secret_cmd_def
  by simp_all



lemma last_dry_run:
  "last (create_ns_cmd ns True) = ''--dry-run=client''"
  "last (create_sa_cmd u ns True) = ''--dry-run=client''"
  "last (bind_role_cmd u r ns True) = ''--dry-run=client''"
  "last (create_secret_cmd u True) = ''--dry-run=client''"
  by (simp_all add: create_ns_cmd_def create_sa_cmd_def bind_role_cmd_def create_secret_cmd_def
        dry_run_flag_def)

lemma secret_file_eq: "secret_file u = u @ ''-token.yaml''"
  by (simp add: secret_file_def secret_name_def)

lemma join_ensure_namespace_cmd:
  "join '' '' (ensure_namespace_cmd ns) = ''kubectl get namespace '' @ ns"
  by (simp add: ensure_namespace_cmd_def)

lemma commands_of_append: "commands_of (xs @ ys) = commands_of xs @ commands_of ys"
  by (induction xs rule: commands_of.induct) simp_all

lemma files_after_append: "files_after fs (xs @ ys) = files_after (files_after fs xs) ys"
proof (induction xs arbitrary: fs)
  case Nil
  show ?case by simp
next
  case (Cons e xs)
  then show ?case by (cases e) (simp_all del: fun_upd_apply)
qed

lemma commands_of_error_report: "commands_of (error_report cmd result) = []"
  by (simp add: error_report_def)

lemma files_after_error_report: "files_after fs (error_report cmd result) = fs"
  by (simp add: error_report_def)

subsection \<open>Facts about step 1\<close>

lemma ensured_commands:
  "ensured ns d t \<Longrightarrow>
   commands_of t = [ensure_namespace_cmd ns] \<or>
   commands_of t = [ensure_namespace_cmd ns, create_ns_cmd ns d]"
  by (auto elim!: ensured.cases simp: commands_of_append commands_of_error_report)

lemma ensured_files: "ensured ns d t \<Longrightarrow> files_after fs t = fs"
  by (auto elim!: ensured.cases simp: files_after_append files_after_error_report)

lemma ensured_no_remove: "ensured ns d t \<Longrightarrow> RemoveFile path \<notin> set t"
  by (auto elim!: ensured.cases simp: error_report_def)

lemma ensured_no_write: "ensured ns d t \<Longrightarrow> WriteFile path y \<notin> set t"
  by (auto elim!: ensured.cases simp: error_report_def)


subsection \<open>Facts about whole runs\<close>



lemma written_descriptor:
  "WriteFile path y \<in> set (run_trace k u r ns d) \<Longrightarrow> path = secret_file u \<and> y = secret_yaml u ns"
  using run_shape [of u r ns d k]
  by cases (auto simp: error_report_def dest: ensured_no_write split: if_splits)



section \<open>Concrete runs\<close>



lemma alice_ok:
  "create_service_account k_ok ''alice'' ''operator'' ''staging'' False [] =
     ([Print ''Ensuring namespace 'staging' exists...'',
       Exec [''kubectl'', ''get'', ''namespace'', ''staging''] succeeded,
       Print ''Namespace 'staging' already exists.'',
       Print ''Creating service account 'alice' in namespace 'staging'...'',
       Exec [''kubectl'', ''create'', ''serviceaccount'', ''alice'', ''--namespace'', ''staging'']
         succeeded,
       Print ''Service account 'alice' created successfully.'',
       Print ''Binding service account 'alice' to role 'operator'...'',
       Exec [''kubectl'', ''create'', ''rolebinding'', ''alice-operator-binding'',
             ''--clusterrole'', ''operator'', ''--serviceaccount=staging:alice'',
             ''--namespace'', ''staging''] succeeded,
       Print ''Service account 'alice' bound to role 'operator' successfully.'',
       Print ''Creating a secret for the service account 'alice'...'',
       WriteFile ''alice-token.yaml'' (secret_yaml ''alice'' ''staging''),
       Print ''Generated secret YAML file: alice-token.yaml'',
       Exec [''kubectl'', ''apply'', ''-f'', ''alice-token.yaml''] succeeded,
       Print ''Secret 'alice-token' created in namespace 'staging' successfully.'',
       RemoveFile ''alice-token.yaml''],
      Inr ())"
  by code_simp

lemma alice_sa_exists:
  "create_service_account k_sa_exists ''alice'' ''operator'' ''staging'' False [] =
     ([Print ''Ensuring namespace 'staging' exists...'',
       Exec [''kubectl'', ''get'', ''namespace'', ''staging''] succeeded,
       Print ''Namespace 'staging' already exists.'',
       Print ''Creating service account 'alice' in namespace 'staging'...'',
       Exec [''kubectl'', ''create'', ''serviceaccount'', ''alice'', ''--namespace'', ''staging'']
         (failed_with
            ''Error from server (AlreadyExists): serviceaccounts alice already exists\<newline>''),
       Print ''Error running command: kubectl create serviceaccount alice --namespace staging'',
       Print ''Error from server (AlreadyExists): serviceaccounts alice already exists''],
      Inl (SystemExit 1))"
  by code_simp


lemma alice_dry_no_namespace:
  "create_service_account k_no_namespace ''alice'' ''operator'' ''staging'' True [] =
     ([Print ''Ensuring namespace 'staging' exists...'',
       Exec [''kubectl'', ''get'', ''namespace'', ''staging'']
         (failed_with ''Error from server (NotFound): namespaces staging not found\<newline>''),
       Print ''Error running command: kubectl get namespace staging'',
       Print ''Error from server (NotFound): namespaces staging not found'',
       Exec [''kubectl'', ''create'', ''namespace'', ''staging'', ''--dry-run=client''] succeeded,
       Print ''Namespace 'staging' created successfully.'',
       Print ''Creating service account 'alice' in namespace 'staging'...'',
       Exec [''kubectl'', ''create'', ''serviceaccount'', ''alice'', ''--namespace'', ''staging'',
             ''--dry-run=client''] succeeded,
       Print ''Service account 'alice' created successfully.'',
       Print ''Binding service account 'alice' to role 'operator'...'',
       Exec [''kubectl'', ''create'', ''rolebinding'', ''alice-operator-binding'',
             ''--clusterrole'', ''operator'', ''--serviceaccount=staging:alice'',
             ''--namespace'', ''staging'', ''--dry-run=client''] succeeded,
       Print ''Service account 'alice' bound to role 'operator' successfully.'',
       Print ''Creating a secret for the service account 'alice'...'',
       WriteFile ''alice-token.yaml'' (secret_yaml ''alice'' ''staging''),
       Print ''Generated secret YAML file: alice-token.yaml'',
       Exec [''kubectl'', ''apply'', ''-f'', ''alice-token.yaml'', ''--dry-run=client''] succeeded,
       Print ''Secret 'alice-token' created in namespace 'staging' successfully.''],
      Inr ())"
  by code_simp

section \<open>The claims of the specification\<close>

subsection \<open>C1: the four operations, in order\<close>




subsection \<open>C2: a failing call ends the run\<close>

text \<open>
  C2: wherever in a run an external call other than the namespace query comes back with a
  non-zero exit code, all that follows it in the trace is the report (the failing command
  line, then the stripped standard error of the tool), no later step runs, and the run
  leaves through \<^verbatim>\<open>sys.exit(1)\<close>, a non-zero exit status.
\<close>

theorem failed_call_ends_run:
  assumes "run_trace k u r ns d = pre @ Exec cmd result # post"
    and "returncode result \<noteq> 0"
    and "cmd \<noteq> ensure_namespace_cmd ns"
  shows "post = [Print (''Error running command: '' @ join '' '' cmd), Print (strip (stderr result))]
         \<and> run_result k u r ns d = Inl (SystemExit 1)"
  using run_shape [of u r ns d k]
proof cases
  case ns_failed
  with assms show ?thesis
    by (auto simp: error_report_def append_eq_Cons_conv Cons_eq_append_conv)
next
  case sa_failed
  with assms show ?thesis
    by (auto simp: error_report_def append_eq_Cons_conv Cons_eq_append_conv elim!: ensured.cases)
next
  case rb_failed
  with assms show ?thesis
    by (auto simp: error_report_def append_eq_Cons_conv Cons_eq_append_conv elim!: ensured.cases)
next
  case apply_failed
  with assms show ?thesis
    by (auto simp: error_report_def append_eq_Cons_conv Cons_eq_append_conv elim!: ensured.cases)
next
  case completed
  with assms show ?thesis
    by (auto simp: error_report_def append_eq_Cons_conv Cons_eq_append_conv elim!: ensured.cases
          split: if_splits)
qed

text \<open>
  The theorem at the run for a service account that exists already: the failing call is
  the fifth event, and the two lines of the report are the last events of the trace.
\<close>

theorem failed_call_ends_run_witness:
  "run_trace k_sa_exists ''alice'' ''operator'' ''staging'' False =
     take 4 (run_trace k_sa_exists ''alice'' ''operator'' ''staging'' False)
       @ Exec [''kubectl'', ''create'', ''serviceaccount'', ''alice'', ''--namespace'', ''staging'']
           (failed_with
              ''Error from server (AlreadyExists): serviceaccounts alice already exists\<newline>'')
       # [Print ''Error running command: kubectl create serviceaccount alice --namespace staging'',
          Print ''Error from server (AlreadyExists): serviceaccounts alice already exists''] \<and>
   returncode (failed_with
      ''Error from server (AlreadyExists): serviceaccounts alice already exists\<newline>'') \<noteq> 0 \<and>
   [''kubectl'', ''create'', ''serviceaccount'', ''alice'', ''--namespace'', ''staging'']
     \<noteq> ensure_namespace_cmd ''staging'' \<and>
   run_result k_sa_exists ''alice'' ''operator'' ''staging'' False = Inl (SystemExit 1)"
proof -
  have split: "run_trace k_sa_exists ''alice'' ''operator'' ''staging'' False =
     take 4 (run_trace k_sa_exists ''alice'' ''operator'' ''staging'' False)
       @ Exec [''kubectl'', ''create'', ''serviceaccount'', ''alice'', ''--namespace'', ''staging'']
           (failed_with
              ''Error from server (AlreadyExists): serviceaccounts alice already exists\<newline>'')
       # [Print ''Error running command: kubectl create serviceaccount alice --namespace staging'',
          Print ''Error from server (AlreadyExists): serviceaccounts alice already exists'']"
    by (simp add: run_trace_def alice_sa_exists)
  have rc: "returncode (failed_with
      ''Error from server (AlreadyExists): serviceaccounts alice already exists\<newline>'') \<noteq> 0"
    by (simp add: failed_with_def)
  have other: "[''kubectl'', ''create'', ''serviceaccount'', ''alice'', ''--namespace'', ''staging'']
     \<noteq> ensure_namespace_cmd ''staging''"
    by (simp add: ensure_namespace_cmd_def)
  from failed_call_ends_run [OF split rc other] split rc other show ?thesis by simp
qed

subsection \<open>C3: the annotation of the secret descriptor\<close>

text \<open>
  C3 gives the annotation mapping of the descriptor as the single key
  \<^verbatim>\<open>service-account-name\<close> mapped to the username. The mapping built by the script has a
  single key, mapped to the username, but the key is
  \<^verbatim>\<open>kubernetes.io/service-account.name\<close>; and whatever a run writes to the descriptor
  file has this mapping.
\<close>

theorem secret_annotation:
  "lookup_path (secret_yaml u ns) [''metadata'', ''annotations''] =
     Some (Dict [(''kubernetes.io/service-account.name'', Str u)]) \<and>
   (WriteFile path y \<in> set (run_trace k u r ns d) \<longrightarrow>
      lookup_path y [''metadata'', ''annotations''] =
        Some (Dict [(''kubernetes.io/service-account.name'', Str u)]))"
  using written_descriptor [of path y k u r ns d] by (auto simp: secret_yaml_def)

text \<open>
  The theorem at the completed run for alice: the descriptor is written, and its annotation
  mapping is the one key with the value \<^verbatim>\<open>alice\<close>.
\<close>

theorem secret_annotation_witness:
  "WriteFile ''alice-token.yaml'' (secret_yaml ''alice'' ''staging'')
     \<in> set (run_trace k_ok ''alice'' ''operator'' ''staging'' False) \<and>
   lookup_path (secret_yaml ''alice'' ''staging'') [''metadata'', ''annotations''] =
     Some (Dict [(''kubernetes.io/service-account.name'', Str ''alice'')])"
  using secret_annotation [of "''alice''" "''staging''" "''alice-token.yaml''"
      "secret_yaml ''alice'' ''staging''" k_ok "''operator''" False]
  by (simp add: run_trace_def alice_ok)

text \<open>
  C3 as stated fails for alice: the annotation mapping of the descriptor written in that
  run does not have the key \<^verbatim>\<open>service-account-name\<close>.
\<close>

theorem annotation_key_differs:
  "WriteFile ''alice-token.yaml'' (secret_yaml ''alice'' ''staging'')
     \<in> set (run_trace k_ok ''alice'' ''operator'' ''staging'' False) \<and>
   lookup_path (secret_yaml ''alice'' ''staging'') [''metadata'', ''annotations''] \<noteq>
     Some (Dict [(''service-account-name'', Str ''alice'')]) \<and>
   lookup_path (secret_yaml ''alice'' ''staging'')
     [''metadata'', ''annotations'', ''service-account-name''] = None"
  by (simp add: run_trace_def alice_ok secret_yaml_def)

subsection \<open>C4: failures of the namespace query\<close>




subsection \<open>C5: the namespace is created exactly when the query fails\<close>



subsection \<open>C6: dry runs\<close>

text \<open>
  C6: in a run with the dry-run flag, every command started except the namespace query (so
  each of the namespace creation, the service-account creation, the role-binding creation
  and the secret application that is reached) carries \<^verbatim>\<open>--dry-run=client\<close> as its last
  argument; no file is removed; and the descriptor file, once written, is still there with
  its content after the run, whatever files there were before.
\<close>

theorem dry_run_simulates:
  "(\<forall>cmd \<in> set (commands_of (run_trace k u r ns True)).
      cmd = ensure_namespace_cmd ns \<or> last cmd = ''--dry-run=client'') \<and>
   RemoveFile path \<notin> set (run_trace k u r ns True) \<and>
   (WriteFile file y \<in> set (run_trace k u r ns True) \<longrightarrow>
      file = u @ ''-token.yaml'' \<and> files_after fs (run_trace k u r ns True) file = Some y)"
  using run_shape [of u r ns True k]
proof cases
  case ns_failed
  then show ?thesis
    by (auto simp: error_report_def last_dry_run)
next
  case (sa_failed t1)
  with ensured_commands [OF sa_failed(3)] show ?thesis
    by (auto simp: error_report_def last_dry_run commands_of_append
          dest: ensured_no_remove ensured_no_write)
next
  case (rb_failed t1)
  with ensured_commands [OF rb_failed(3)] show ?thesis
    by (auto simp: error_report_def last_dry_run commands_of_append
          dest: ensured_no_remove ensured_no_write)
next
  case (apply_failed t1)
  with ensured_commands [OF apply_failed(3)] show ?thesis
    by (auto simp: error_report_def last_dry_run commands_of_append files_after_append
          ensured_files secret_file_eq dest: ensured_no_remove ensured_no_write)
next
  case (completed t1)
  with ensured_commands [OF completed(3)] show ?thesis
    by (auto simp: error_report_def last_dry_run commands_of_append files_after_append
          ensured_files secret_file_eq dest: ensured_no_remove ensured_no_write)
qed

text \<open>
  The theorem at a dry run for alice on a cluster without the namespace: the four mutating
  commands with the option, and the descriptor file left behind.
\<close>

theorem dry_run_simulates_witness:
  "commands_of (run_trace k_no_namespace ''alice'' ''operator'' ''staging'' True) =
     [[''kubectl'', ''get'', ''namespace'', ''staging''],
      [''kubectl'', ''create'', ''namespace'', ''staging'', ''--dry-run=client''],
      [''kubectl'', ''create'', ''serviceaccount'', ''alice'', ''--namespace'', ''staging'',
       ''--dry-run=client''],
      [''kubectl'', ''create'', ''rolebinding'', ''alice-operator-binding'', ''--clusterrole'',
       ''operator'', ''--serviceaccount=staging:alice'', ''--namespace'', ''staging'',
       ''--dry-run=client''],
      [''kubectl'', ''apply'', ''-f'', ''alice-token.yaml'', ''--dry-run=client'']] \<and>
   RemoveFile ''alice-token.yaml''
     \<notin> set (run_trace k_no_namespace ''alice'' ''operator'' ''staging'' True) \<and>
   WriteFile ''alice-token.yaml'' (secret_yaml ''alice'' ''staging'')
     \<in> set (run_trace k_no_namespace ''alice'' ''operator'' ''staging'' True) \<and>
   files_after Map.empty (run_trace k_no_namespace ''alice'' ''operator'' ''staging'' True)
     ''alice-token.yaml'' = Some (secret_yaml ''alice'' ''staging'')"
  using dry_run_simulates [of k_no_namespace "''alice''" "''operator''" "''staging''"
      "''alice-token.yaml''" "''alice-token.yaml''" "secret_yaml ''alice'' ''staging''" Map.empty]
  by (simp add: run_trace_def alice_dry_no_namespace)

subsection \<open>C7: the descriptor file in a run that is not a dry run\<close>

text \<open>
  C7: in a run without the dry-run flag, at the moment the apply command is started (after
  the events \<open>pre\<close> that precede it) the file \<^verbatim>\<open>{username}-token.yaml\<close> exists and holds the
  descriptor; and after a run that completes the file does not exist. Both hold whatever
  files \<open>fs\<close> there were before the run.
\<close>

theorem descriptor_file_lifetime:
  "(run_trace k u r ns False = pre @ Exec (create_secret_cmd u False) a # post \<longrightarrow>
      files_after fs pre (u @ ''-token.yaml'') = Some (secret_yaml u ns)) \<and>
   (run_result k u r ns False = Inr () \<longrightarrow>
      files_after fs (run_trace k u r ns False) (u @ ''-token.yaml'') = None)"
  using run_shape [of u r ns False k]
proof cases
  case ns_failed
  then show ?thesis
    by (auto simp: error_report_def append_eq_Cons_conv Cons_eq_append_conv commands_distinct
          commands_distinct [symmetric])
next
  case sa_failed
  then show ?thesis
    by (auto simp: error_report_def append_eq_Cons_conv Cons_eq_append_conv commands_distinct commands_distinct [symmetric]
          elim!: ensured.cases)
next
  case rb_failed
  then show ?thesis
    by (auto simp: error_report_def append_eq_Cons_conv Cons_eq_append_conv commands_distinct commands_distinct [symmetric]
          elim!: ensured.cases)
next
  case apply_failed
  then show ?thesis
    by (auto simp: error_report_def append_eq_Cons_conv Cons_eq_append_conv commands_distinct commands_distinct [symmetric]
          secret_file_eq elim!: ensured.cases)
next
  case completed
  then show ?thesis
    by (auto simp: error_report_def append_eq_Cons_conv Cons_eq_append_conv commands_distinct commands_distinct [symmetric]
          secret_file_eq elim!: ensured.cases)
qed

text \<open>
  The theorem at the completed run for alice: the apply command is the thirteenth event;
  the file is there after the twelve events before it, and gone at the end.
\<close>

theorem descriptor_file_lifetime_witness:
  "run_trace k_ok ''alice'' ''operator'' ''staging'' False =
     take 12 (run_trace k_ok ''alice'' ''operator'' ''staging'' False)
       @ Exec (create_secret_cmd ''alice'' False) succeeded
       # drop 13 (run_trace k_ok ''alice'' ''operator'' ''staging'' False) \<and>
   files_after Map.empty (take 12 (run_trace k_ok ''alice'' ''operator'' ''staging'' False))
     ''alice-token.yaml'' = Some (secret_yaml ''alice'' ''staging'') \<and>
   run_result k_ok ''alice'' ''operator'' ''staging'' False = Inr () \<and>
   files_after Map.empty (run_trace k_ok ''alice'' ''operator'' ''staging'' False)
     ''alice-token.yaml'' = None"
proof -
  have split: "run_trace k_ok ''alice'' ''operator'' ''staging'' False =
     take 12 (run_trace k_ok ''alice'' ''operator'' ''staging'' False)
       @ Exec (create_secret_cmd ''alice'' False) succeeded
       # drop 13 (run_trace k_ok ''alice'' ''operator'' ''staging'' False)"
    by (simp add: run_trace_def alice_ok create_secret_cmd_def secret_file_eq dry_run_flag_def)
  have res: "run_result k_ok ''alice'' ''operator'' ''staging'' False = Inr ()"
    by (simp add: run_result_def alice_ok)
  from descriptor_file_lifetime [of k_ok "''alice''" "''operator''" "''staging''"
      "take 12 (run_trace k_ok ''alice'' ''operator'' ''staging'' False)" succeeded
      "drop 13 (run_trace k_ok ''alice'' ''operator'' ''staging'' False)" Map.empty]
    split res
  show ?thesis by simp
qed

subsection \<open>C8: an invalid role is rejected before anything runs\<close>

text \<open>
  C8: when the value given for \<^verbatim>\<open>--role\<close> is not one of the four role names, the program
  leaves from the argument parser with exit status 2 and an empty trace: no external call,
  no print and no file operation of the provisioning steps has happened.
\<close>

theorem invalid_role_rejected:
  assumes "opt_role a = Some role"
    and "role \<notin> {''product-team-role'', ''lead-developer-team-role'', ''cs-team-role'', ''operator''}"
  shows "main k a = ([], Inl (SystemExit 2))"
  using assms by (simp add: main_def parse_args_def role_choices_def)

text \<open>
  The theorem at \<^verbatim>\<open>--username alice --role cluster-admin\<close>.
\<close>

theorem invalid_role_rejected_witness:
  "opt_role argv_admin = Some ''cluster-admin'' \<and>
   ''cluster-admin'' \<notin> {''product-team-role'', ''lead-developer-team-role'', ''cs-team-role'',
                          ''operator''} \<and>
   main k_ok argv_admin = ([], Inl (SystemExit 2))"
proof -
  have r: "opt_role argv_admin = Some ''cluster-admin''"
    by (simp add: argv_admin_def)
  have n: "''cluster-admin'' \<notin> {''product-team-role'', ''lead-developer-team-role'',
      ''cs-team-role'', ''operator''}"
    by simp
  from invalid_role_rejected [OF r n, of k_ok] r n show ?thesis by simp
qed

subsection \<open>C9: the names of the role binding, the secret and the file\<close>



subsection \<open>C10: the failing namespace query is reported\<close>

text \<open>
  C10: whenever the namespace query of a run exits non-zero, the very next events are the
  two lines of the report (the command line \<^verbatim>\<open>kubectl get namespace {namespace}\<close> after
  \<^verbatim>\<open>Error running command:\<close>, then the stripped standard error of the query), and the
  run goes on from there with the create-namespace command: the branch is not silent.
\<close>

theorem query_failure_reported:
  assumes "run_trace k u r ns d = pre @ Exec (ensure_namespace_cmd ns) q # post"
    and "returncode q \<noteq> 0"
  shows "\<exists>c rest. post =
           [Print (''Error running command: kubectl get namespace '' @ ns),
            Print (strip (stderr q)),
            Exec (create_ns_cmd ns d) c] @ rest"
  using run_shape [of u r ns d k]
proof cases
  case ns_failed
  with assms show ?thesis
    by (auto simp: error_report_def append_eq_Cons_conv Cons_eq_append_conv commands_distinct
          join_ensure_namespace_cmd)
next
  case sa_failed
  with assms show ?thesis
    by (auto simp: error_report_def append_eq_Cons_conv Cons_eq_append_conv commands_distinct
          commands_distinct [symmetric] join_ensure_namespace_cmd elim!: ensured.cases)
next
  case rb_failed
  with assms show ?thesis
    by (auto simp: error_report_def append_eq_Cons_conv Cons_eq_append_conv commands_distinct
          commands_distinct [symmetric] join_ensure_namespace_cmd elim!: ensured.cases)
next
  case apply_failed
  with assms show ?thesis
    by (auto simp: error_report_def append_eq_Cons_conv Cons_eq_append_conv commands_distinct
          commands_distinct [symmetric] join_ensure_namespace_cmd elim!: ensured.cases)
next
  case completed
  with assms show ?thesis
    by (auto simp: error_report_def append_eq_Cons_conv Cons_eq_append_conv commands_distinct
          commands_distinct [symmetric] join_ensure_namespace_cmd elim!: ensured.cases
          split: if_splits)
qed

text \<open>
  The theorem at the dry run for alice on a cluster without the namespace: the two lines
  and the creation are the third to fifth events.
\<close>

theorem query_failure_reported_witness:
  "run_trace k_no_namespace ''alice'' ''operator'' ''staging'' True =
     take 1 (run_trace k_no_namespace ''alice'' ''operator'' ''staging'' True)
       @ Exec (ensure_namespace_cmd ''staging'')
           (failed_with ''Error from server (NotFound): namespaces staging not found\<newline>'')
       # drop 2 (run_trace k_no_namespace ''alice'' ''operator'' ''staging'' True) \<and>
   returncode
      (failed_with ''Error from server (NotFound): namespaces staging not found\<newline>'') \<noteq> 0 \<and>
   take 3 (drop 2 (run_trace k_no_namespace ''alice'' ''operator'' ''staging'' True)) =
     [Print ''Error running command: kubectl get namespace staging'',
      Print ''Error from server (NotFound): namespaces staging not found'',
      Exec [''kubectl'', ''create'', ''namespace'', ''staging'', ''--dry-run=client''] succeeded]"
proof -
  have split: "run_trace k_no_namespace ''alice'' ''operator'' ''staging'' True =
     take 1 (run_trace k_no_namespace ''alice'' ''operator'' ''staging'' True)
       @ Exec (ensure_namespace_cmd ''staging'')
           (failed_with ''Error from server (NotFound): namespaces staging not found\<newline>'')
       # drop 2 (run_trace k_no_namespace ''alice'' ''operator'' ''staging'' True)"
    by (simp add: run_trace_def alice_dry_no_namespace ensure_namespace_cmd_def)
  have rc: "returncode
      (failed_with ''Error from server (NotFound): namespaces staging not found\<newline>'') \<noteq> 0"
    by (simp add: failed_with_def)
  from query_failure_reported [OF split rc] split rc show ?thesis
    by (auto simp: run_trace_def alice_dry_no_namespace)
qed

end
